theory Spec2Isabelle
  imports Complex_Main
begin

section \<open>Python values, exceptions and the log\<close>

text \<open>
  The values that can sit in a checkpoint bundle or be returned by a trainer.
  \<open>PyFloat x\<close> is a finite float whose exact value is \<open>x\<close>; \<open>PyObj h\<close> is any other
  object (a state dict, the configuration, the tokenizer), known by a handle \<open>h\<close>:
  such an object supports neither \<open>+ 1\<close> nor the format code \<open>.6f\<close>.
\<close>

datatype pyval = PyNone | PyBool bool | PyInt int | PyFloat real | PyStr string
  | PyDict "(string \<times> pyval) list" | PyObj nat

text \<open>
  A raised object carries its class name and its message. \<open>PyException\<close> is an instance
  of \<open>Exception\<close> or of a subclass (RuntimeError, TypeError, ...): what
  \<open>except Exception\<close> catches. \<open>PyBaseException\<close> is an instance of a class outside
  \<open>Exception\<close> (KeyboardInterrupt, SystemExit, GeneratorExit): \<open>except Exception\<close>
  lets it through.
\<close>

datatype exn = PyException string string | PyBaseException string string

datatype level = INFO | WARNING | ERROR

text \<open>A log record: the level, the message with \<open>{}\<close> where a value is formatted in, the values.\<close>

type_synonym log_entry = "level \<times> string \<times> pyval list"

type_synonym checkpoint_bundle = "string \<rightharpoonup> pyval"

subsection \<open>Built-in operations the code relies on\<close>

definition digit_char :: "nat \<Rightarrow> char" where
  "digit_char n = ''0123456789'' ! n"

fun str_nat :: "nat \<Rightarrow> string" where
  "str_nat n = (if n < 10 then [digit_char n] else str_nat (n div 10) @ [digit_char (n mod 10)])"

declare str_nat.simps [simp del]

definition str_int :: "int \<Rightarrow> string" where
  \<comment> \<open>\<open>str(i)\<close>, as an f-string formats an int\<close>
  "str_int i = (if i < 0 then CHR ''-'' # str_nat (nat (- i)) else str_nat (nat i))"

definition os_path_join :: "string \<Rightarrow> string \<Rightarrow> string" where
  \<comment> \<open>\<open>os.path.join(a, b)\<close> of posixpath, two arguments\<close>
  "os_path_join a b =
     (if b \<noteq> [] \<and> hd b = CHR ''/'' then b
      else if a = [] \<or> last a = CHR ''/'' then a @ b
      else a @ ''/'' @ b)"

definition os_path_basename :: "string \<Rightarrow> string" where
  \<comment> \<open>\<open>os.path.basename(p)\<close> of posixpath: what follows the last slash. The code
      does not call it; it says which file name a path ends in.\<close>
  "os_path_basename p = rev (takeWhile (\<lambda>c. c \<noteq> CHR ''/'') (rev p))"

definition py_add_one :: "(real \<Rightarrow> real \<Rightarrow> real) \<Rightarrow> pyval \<Rightarrow> exn + pyval" where
  \<comment> \<open>\<open>v + 1\<close>; the first argument is the platform's float addition\<close>
  "py_add_one fadd v =
     (case v of
        PyInt n \<Rightarrow> Inr (PyInt (n + 1))
      | PyBool b \<Rightarrow> Inr (PyInt (if b then 2 else 1))
      | PyFloat x \<Rightarrow> Inr (PyFloat (fadd x 1))
      | PyNone \<Rightarrow> Inl (PyException ''TypeError'' ''unsupported operand type(s) for +'')
      | PyStr s \<Rightarrow> Inl (PyException ''TypeError'' ''can only concatenate str (not int) to str'')
      | PyDict d \<Rightarrow> Inl (PyException ''TypeError'' ''unsupported operand type(s) for +'')
      | PyObj h \<Rightarrow> Inl (PyException ''TypeError'' ''unsupported operand type(s) for +''))"

definition py_format_6f :: "pyval \<Rightarrow> exn option" where
  \<comment> \<open>\<open>format(v, '.6f')\<close>: the exception it raises, if any. An int is converted to a
      float first, which overflows from \<open>2^1024 - 2^970\<close> on.\<close>
  "py_format_6f v =
     (case v of
        PyInt n \<Rightarrow> (if \<bar>n\<bar> < 2 ^ 1024 - 2 ^ 970 then None
                    else Some (PyException ''OverflowError'' ''int too large to convert to float''))
      | PyBool b \<Rightarrow> None
      | PyFloat x \<Rightarrow> None
      | PyNone \<Rightarrow> Some (PyException ''TypeError'' ''unsupported format string passed to NoneType.__format__'')
      | PyStr s \<Rightarrow> Some (PyException ''ValueError'' ''Unknown format code f for object of type str'')
      | PyDict d \<Rightarrow> Some (PyException ''TypeError'' ''unsupported format string passed to dict.__format__'')
      | PyObj h \<Rightarrow> Some (PyException ''TypeError'' ''unsupported format string passed to object.__format__''))"

section \<open>The checkpoint loader\<close>

text \<open>
  What \<open>load_checkpoint_for_resumption\<close> calls outside this file: the file system,
  \<open>torch.load\<close>, and the two \<open>load_state_dict\<close> methods. A \<open>load_state_dict\<close> mutates its
  object and may raise after having copied part of the state, so it returns the
  exception (if any) together with the object as it leaves it.
\<close>

record ('m, 'o) env =
  path_exists :: "string \<Rightarrow> bool"
  torch_load :: "string \<Rightarrow> string \<Rightarrow> exn + checkpoint_bundle"
  model_load_state_dict :: "'m \<Rightarrow> pyval \<Rightarrow> exn option \<times> 'm"
  optimizer_load_state_dict :: "'o \<Rightarrow> pyval \<Rightarrow> exn option \<times> 'o"
  float_add :: "real \<Rightarrow> real \<Rightarrow> real"

record ('m, 'o) state =
  model :: 'm
  optimizer :: 'o
  logged :: "log_entry list"

definition logger :: "level \<Rightarrow> string \<Rightarrow> pyval list \<Rightarrow> ('m, 'o) state \<Rightarrow> ('m, 'o) state" where
  "logger lv msg args s = s\<lparr>logged := logged s @ [(lv, msg, args)]\<rparr>"

definition load_model_state :: "('m, 'o) env \<Rightarrow> checkpoint_bundle \<Rightarrow> ('m, 'o) state \<Rightarrow> exn option \<times> ('m, 'o) state" where
  "load_model_state env checkpoint s =
     (case checkpoint ''model_state_dict'' of
        Some sd \<Rightarrow>
          (case model_load_state_dict env (model s) sd of
             (Some e, m') \<Rightarrow> (Some e, s\<lparr>model := m'\<rparr>)
           | (None, m') \<Rightarrow> (None, logger INFO ''Model state loaded successfully'' [] (s\<lparr>model := m'\<rparr>)))
      | None \<Rightarrow> (None, logger WARNING ''No model_state_dict found in checkpoint'' [] s))"

definition load_optimizer_state :: "('m, 'o) env \<Rightarrow> checkpoint_bundle \<Rightarrow> ('m, 'o) state \<Rightarrow> exn option \<times> ('m, 'o) state" where
  "load_optimizer_state env checkpoint s =
     (case checkpoint ''optimizer_state_dict'' of
        Some sd \<Rightarrow>
          (case optimizer_load_state_dict env (optimizer s) sd of
             (Some e, o') \<Rightarrow> (Some e, s\<lparr>optimizer := o'\<rparr>)
           | (None, o') \<Rightarrow> (None, logger INFO ''Optimizer state loaded successfully'' [] (s\<lparr>optimizer := o'\<rparr>)))
      | None \<Rightarrow> (None, logger WARNING ''No optimizer_state_dict found in checkpoint'' [] s))"

definition get_starting_epoch :: "('m, 'o) env \<Rightarrow> checkpoint_bundle \<Rightarrow> ('m, 'o) state \<Rightarrow> (exn + pyval) \<times> ('m, 'o) state" where
  \<comment> \<open>\<open>start_epoch\<close> keeps its initial 0 when the bundle has no epoch\<close>
  "get_starting_epoch env checkpoint s =
     (case checkpoint ''epoch'' of
        Some v \<Rightarrow>
          (case py_add_one (float_add env) v of
             Inl e \<Rightarrow> (Inl e, s)
           | Inr start_epoch \<Rightarrow> (Inr start_epoch, logger INFO ''Resuming from epoch {}'' [start_epoch] s))
      | None \<Rightarrow>
          (Inr (PyInt 0),
           logger WARNING ''No epoch information found in checkpoint, starting from epoch 0'' [] s))"

definition log_checkpoint_loss :: "checkpoint_bundle \<Rightarrow> ('m, 'o) state \<Rightarrow> exn option \<times> ('m, 'o) state" where
  "log_checkpoint_loss checkpoint s =
     (case checkpoint ''loss'' of
        Some v \<Rightarrow>
          (case py_format_6f v of
             Some e \<Rightarrow> (Some e, s)
           | None \<Rightarrow> (None, logger INFO ''Checkpoint loss: {:.6f}'' [v] s))
      | None \<Rightarrow> (None, s))"

definition try_body :: "('m, 'o) env \<Rightarrow> string \<Rightarrow> string \<Rightarrow> ('m, 'o) state \<Rightarrow> (exn + pyval) \<times> ('m, 'o) state" where
  \<comment> \<open>the statements under \<open>try\<close>: \<open>Inl e\<close> when one of them raises \<open>e\<close>, with the state
      as it is at the raise\<close>
  "try_body env checkpoint_path device s =
     (case torch_load env checkpoint_path device of
        Inl e \<Rightarrow> (Inl e, s)
      | Inr checkpoint \<Rightarrow>
          (case load_model_state env checkpoint s of
             (Some e, s1) \<Rightarrow> (Inl e, s1)
           | (None, s1) \<Rightarrow>
               (case load_optimizer_state env checkpoint s1 of
                  (Some e, s2) \<Rightarrow> (Inl e, s2)
                | (None, s2) \<Rightarrow>
                    (case get_starting_epoch env checkpoint s2 of
                       (Inl e, s3) \<Rightarrow> (Inl e, s3)
                     | (Inr start_epoch, s3) \<Rightarrow>
                         (case log_checkpoint_loss checkpoint s3 of
                            (Some e, s4) \<Rightarrow> (Inl e, s4)
                          | (None, s4) \<Rightarrow> (Inr start_epoch, s4))))))"

definition load_checkpoint_for_resumption ::
  "('m, 'o) env \<Rightarrow> string option \<Rightarrow> string \<Rightarrow> ('m, 'o) state \<Rightarrow> (exn + pyval) \<times> ('m, 'o) state" where
  \<comment> \<open>\<open>Inr start_epoch\<close> when the function returns, \<open>Inl e\<close> when \<open>e\<close> leaves it. A path
      is truthy when it is neither \<open>None\<close> nor the empty string.\<close>
  "load_checkpoint_for_resumption env checkpoint_path device s =
     (case checkpoint_path of
        None \<Rightarrow> (Inr (PyInt 0), s)
      | Some p \<Rightarrow>
          if p \<noteq> [] \<and> path_exists env p then
            (case try_body env p device (logger INFO ''Resuming training from checkpoint: {}'' [PyStr p] s) of
               (Inr start_epoch, s') \<Rightarrow> (Inr start_epoch, s')
             | (Inl (PyException c msg), s') \<Rightarrow>
                 (Inr (PyInt 0),
                  logger WARNING ''Starting training from scratch'' []
                    (logger ERROR ''Error loading checkpoint: {}'' [PyStr msg] s'))
             | (Inl (PyBaseException c msg), s') \<Rightarrow> (Inl (PyBaseException c msg), s'))
          else if p \<noteq> [] then
            (Inr (PyInt 0),
             logger WARNING ''Checkpoint file not found at '{}'. Starting training from scratch.'' [PyStr p] s)
          else (Inr (PyInt 0), s))"

section \<open>The resume wrapper\<close>

text \<open>
  The wrapped trainer, as far as \<open>ResumeTrainer\<close> touches it: the attributes
  \<open>num_epochs\<close>, \<open>output_dir\<close> and \<open>save_checkpoint\<close>. Everything else the trainer
  owns or writes (model, optimizer, files) is the world \<open>'w\<close>. \<open>save_checkpoint\<close> is
  called as \<open>save_checkpoint(path, epoch, **kwargs)\<close>; it reads the trainer's
  \<open>output_dir\<close> when it is called, so the value of that attribute at the call is its
  first argument here.
\<close>

type_synonym ('k, 'w) saver =
  "string option \<Rightarrow> string \<Rightarrow> int option \<Rightarrow> 'k \<Rightarrow> 'w \<Rightarrow> (exn + pyval) \<times> 'w"

record ('k, 'w) trainer =
  num_epochs :: int
  output_dir :: "string option"
  save_checkpoint :: "('k, 'w) saver"

record ('k, 'w) ResumeTrainer =
  trainer :: "('k, 'w) trainer"
  current_epoch :: int

text \<open>The wrapped trainer's \<open>train\<close> method is not part of this file: it is a parameter.\<close>

type_synonym ('k, 'w) train_method =
  "('k, 'w) trainer \<Rightarrow> 'w \<Rightarrow> (exn + pyval) \<times> ('k, 'w) trainer \<times> 'w"

definition ResumeTrainer_init :: "('k, 'w) trainer \<Rightarrow> int \<Rightarrow> ('k, 'w) ResumeTrainer" where
  "ResumeTrainer_init tr start_epoch = \<lparr>trainer = tr, current_epoch = start_epoch\<rparr>"

definition adjusted_save_checkpoint :: "int \<Rightarrow> ('k, 'w) saver \<Rightarrow> ('k, 'w) saver" where
  \<comment> \<open>the closure of \<open>train\<close>, over \<open>self.current_epoch\<close> and \<open>original_save_checkpoint\<close>;
      \<open>output_dir\<close> is truthy when it is neither \<open>None\<close> nor empty\<close>
  "adjusted_save_checkpoint cur original_save_checkpoint out_dir path epoch kwargs w =
     (let adjusted_epoch = (case epoch of Some i \<Rightarrow> Some (i + cur) | None \<Rightarrow> None);
          path' =
            (case (epoch, out_dir) of
               (Some i, Some d) \<Rightarrow>
                 if d \<noteq> [] then os_path_join d (''checkpoint_epoch_'' @ str_int (i + cur) @ ''.pt'')
                 else path
             | _ \<Rightarrow> path)
      in original_save_checkpoint out_dir path' adjusted_epoch kwargs w)"

definition zero_result :: pyval where
  \<comment> \<open>\<open>{'final_loss': 0.0, 'training_time': 0.0}\<close>\<close>
  "zero_result = PyDict [(''final_loss'', PyFloat 0), (''training_time'', PyFloat 0)]"

definition ResumeTrainer_train ::
  "('k, 'w) train_method \<Rightarrow> ('k, 'w) ResumeTrainer \<Rightarrow> 'w \<Rightarrow>
     (exn + pyval) \<times> ('k, 'w) ResumeTrainer \<times> 'w \<times> log_entry list" where
  \<comment> \<open>\<open>ResumeTrainer.train\<close>: the result or the exception, the wrapper (with its
      trainer) and the world afterwards, and what the method itself logs\<close>
  "ResumeTrainer_train trainer_train self w =
     (let original_num_epochs = num_epochs (trainer self);
          remaining_epochs = original_num_epochs - current_epoch self
      in if remaining_epochs \<le> 0 then
           (Inr zero_result, self, w,
            [(WARNING, ''No epochs remaining to train. Already completed {} epochs.'',
              [PyInt (current_epoch self)])])
         else
           let original_save_checkpoint = save_checkpoint (trainer self);
               patched = (trainer self)
                 \<lparr>num_epochs := remaining_epochs,
                  save_checkpoint := adjusted_save_checkpoint (current_epoch self) original_save_checkpoint\<rparr>
           in case trainer_train patched w of
                (Inl e, t', w') \<Rightarrow> (Inl e, self\<lparr>trainer := t'\<rparr>, w', [])
              | (Inr result, t', w') \<Rightarrow>
                  (Inr result,
                   self\<lparr>trainer := t'\<lparr>num_epochs := original_num_epochs,
                                         save_checkpoint := original_save_checkpoint\<rparr>\<rparr>,
                   w', []))"

section \<open>The final checkpoint of \<open>main\<close>\<close>

definition save_dict ::
  "pyval \<Rightarrow> pyval \<Rightarrow> int \<Rightarrow> pyval \<Rightarrow> pyval \<Rightarrow> pyval \<Rightarrow> pyval \<Rightarrow> pyval \<Rightarrow> checkpoint_bundle" where
  \<comment> \<open>the bundle \<open>main\<close> hands to \<open>torch.save\<close> once \<open>resume_trainer.train()\<close> has
      returned; \<open>config_num_epochs\<close> is \<open>config.num_epochs\<close>\<close>
  "save_dict model_state optimizer_state config_num_epochs config tokenizer training_args timestamp training_result =
     [''model_state_dict'' \<mapsto> model_state,
      ''optimizer_state_dict'' \<mapsto> optimizer_state,
      ''epoch'' \<mapsto> PyInt config_num_epochs,
      ''config'' \<mapsto> config,
      ''tokenizer'' \<mapsto> tokenizer,
      ''training_args'' \<mapsto> training_args,
      ''timestamp'' \<mapsto> timestamp,
      ''training_result'' \<mapsto> training_result]"

section \<open>Example trainers and worlds\<close>

text \<open>
  The wrapped trainer's \<open>train\<close> method is a parameter of every theorem below. For the
  worked examples it is instantiated with a trainer that counts its epochs from 0 up to
  \<open>num_epochs\<close> and saves one checkpoint per epoch through its \<open>save_checkpoint\<close>
  attribute, and with one that raises at once.
\<close>

fun run_epochs :: "(unit, 'w) trainer \<Rightarrow> int \<Rightarrow> nat \<Rightarrow> 'w \<Rightarrow> exn option \<times> 'w" where
  "run_epochs t i 0 w = (None, w)"
| "run_epochs t i (Suc n) w =
     (case save_checkpoint t (output_dir t)
             (os_path_join (case output_dir t of Some d \<Rightarrow> d | None \<Rightarrow> [])
                (''checkpoint_epoch_'' @ str_int i @ ''.pt''))
             (Some i) () w of
        (Inl e, w') \<Rightarrow> (Some e, w')
      | (Inr r, w') \<Rightarrow> run_epochs t (i + 1) n w')"

definition epoch_counting_train :: "(unit, 'w) train_method" where
  "epoch_counting_train t w =
     (case run_epochs t 0 (nat (num_epochs t)) w of
        (Some e, w') \<Rightarrow> (Inl e, t, w')
      | (None, w') \<Rightarrow> (Inr (PyDict [(''epochs_run'', PyInt (num_epochs t))]), t, w'))"

definition failing_train :: "(unit, 'w) train_method" where
  \<comment> \<open>a \<open>train\<close> method that raises at once\<close>
  "failing_train t w = (Inl (PyException ''RuntimeError'' ''CUDA out of memory''), t, w)"

text \<open>A world that is the list of checkpoint files written: path and epoch field.\<close>

type_synonym files = "(string \<times> int option) list"

definition write_checkpoint :: "(unit, files) saver" where
  "write_checkpoint out_dir path epoch kwargs w = (Inr PyNone, w @ [(path, epoch)])"

definition file_trainer :: "int \<Rightarrow> (unit, files) trainer" where
  "file_trainer n = \<lparr>num_epochs = n, output_dir = Some ''out'', save_checkpoint = write_checkpoint\<rparr>"

text \<open>
  A disk that holds one checkpoint, \<open>out/ckpt.pt\<close>, with bundle \<open>ck\<close>. Models and
  optimizers are known by the handle of the state they hold.
\<close>

definition st0 :: "(nat, nat) state" where
  "st0 = \<lparr>model = 0, optimizer = 0, logged = []\<rparr>"

definition handle_of :: "nat \<Rightarrow> pyval \<Rightarrow> nat" where
  "handle_of old sd = (case sd of PyObj h \<Rightarrow> h | _ \<Rightarrow> old)"

definition disk_env :: "checkpoint_bundle \<Rightarrow> (nat, nat) env" where
  "disk_env ck =
     \<lparr>path_exists = (\<lambda>p. p = ''out/ckpt.pt''),
      torch_load = (\<lambda>p d. Inr ck),
      model_load_state_dict = (\<lambda>m sd. (None, handle_of m sd)),
      optimizer_load_state_dict = (\<lambda>m sd. (None, handle_of m sd)),
      float_add = (+)\<rparr>"

definition mismatch_env :: "checkpoint_bundle \<Rightarrow> (nat, nat) env" where
  \<comment> \<open>the same disk, and a model whose shapes do not match the stored ones\<close>
  "mismatch_env ck =
     (disk_env ck)\<lparr>model_load_state_dict :=
        (\<lambda>m sd. (Some (PyException ''RuntimeError'' ''size mismatch for lm_head.weight''), m))\<rparr>"

definition corrupt_env :: "(nat, nat) env" where
  \<comment> \<open>the same disk, and a file that is not a pickle\<close>
  "corrupt_env =
     (disk_env Map.empty)\<lparr>torch_load := (\<lambda>p d. Inl (PyException ''UnpicklingError'' ''invalid load key''))\<rparr>"

definition interrupted_env :: "(nat, nat) env" where
  \<comment> \<open>the same disk, and a user who interrupts \<open>torch.load\<close>\<close>
  "interrupted_env =
     (disk_env Map.empty)\<lparr>torch_load := (\<lambda>p d. Inl (PyBaseException ''KeyboardInterrupt'' []))\<rparr>"

definition epoch4_bundle :: checkpoint_bundle where
  "epoch4_bundle =
     [''model_state_dict'' \<mapsto> PyObj 7, ''optimizer_state_dict'' \<mapsto> PyObj 8,
      ''epoch'' \<mapsto> PyInt 4, ''loss'' \<mapsto> PyFloat (1 / 2)]"

definition lossless_bundle :: checkpoint_bundle where
  \<comment> \<open>as \<open>epoch4_bundle\<close>, with \<open>None\<close> for the loss\<close>
  "lossless_bundle =
     [''model_state_dict'' \<mapsto> PyObj 7, ''optimizer_state_dict'' \<mapsto> PyObj 8,
      ''epoch'' \<mapsto> PyInt 4, ''loss'' \<mapsto> PyNone]"

definition weights_only_bundle :: checkpoint_bundle where
  "weights_only_bundle = [''model_state_dict'' \<mapsto> PyObj 7]"

definition final_bundle :: "int \<Rightarrow> checkpoint_bundle" where
  \<comment> \<open>what \<open>main\<close> saves at the end of a run configured with \<open>n\<close> epochs\<close>
  "final_bundle n =
     save_dict (PyObj 7) (PyObj 8) n (PyObj 1) (PyObj 2) (PyObj 3) (PyStr ''20240101_120000'')
       (PyDict [(''epochs_run'', PyInt n)])"

lemmas trainer_example_defs =
  ResumeTrainer_train_def ResumeTrainer_init_def file_trainer_def epoch_counting_train_def
  failing_train_def adjusted_save_checkpoint_def write_checkpoint_def os_path_join_def
  str_int_def str_nat.simps digit_char_def eval_nat_numeral Let_def zero_result_def

lemmas loader_example_defs =
  load_checkpoint_for_resumption_def try_body_def load_model_state_def load_optimizer_state_def
  get_starting_epoch_def log_checkpoint_loss_def py_add_one_def py_format_6f_def logger_def
  disk_env_def mismatch_env_def corrupt_env_def interrupted_env_def st0_def handle_of_def

section \<open>Facts about the loader's steps\<close>

lemma load_model_state_ok:
  assumes "case ck ''model_state_dict'' of
             Some sd \<Rightarrow> fst (model_load_state_dict env (model s) sd) = None | None \<Rightarrow> True"
  shows "fst (load_model_state env ck s) = None"
    and "optimizer (snd (load_model_state env ck s)) = optimizer s"
  using assms
  by (auto simp: load_model_state_def logger_def split: option.splits prod.splits)

lemma load_optimizer_state_ok:
  assumes "case ck ''optimizer_state_dict'' of
             Some sd \<Rightarrow> fst (optimizer_load_state_dict env (optimizer s) sd) = None | None \<Rightarrow> True"
  shows "fst (load_optimizer_state env ck s) = None"
  using assms
  by (auto simp: load_optimizer_state_def logger_def split: option.splits prod.splits)

lemma try_body_loaded:
  assumes "torch_load env p device = Inr ck"
    and "fst (load_model_state env ck s) = None"
    and "fst (load_optimizer_state env ck (snd (load_model_state env ck s))) = None"
  shows "try_body env p device s =
     (case get_starting_epoch env ck (snd (load_optimizer_state env ck (snd (load_model_state env ck s)))) of
        (Inl e, s3) \<Rightarrow> (Inl e, s3)
      | (Inr start_epoch, s3) \<Rightarrow>
          (case log_checkpoint_loss ck s3 of
             (Some e, s4) \<Rightarrow> (Inl e, s4)
           | (None, s4) \<Rightarrow> (Inr start_epoch, s4)))"
proof -
  obtain s1 where a: "load_model_state env ck s = (None, s1)"
    using assms(2) by (cases "load_model_state env ck s") auto
  obtain s2 where b: "load_optimizer_state env ck s1 = (None, s2)"
    using assms(3) a by (cases "load_optimizer_state env ck s1") auto
  show ?thesis
    by (simp add: try_body_def assms(1) a b)
qed

text \<open>Once the bundle and both states have loaded, only the epoch and the loss are left.\<close>

lemma try_body_after_loads:
  assumes "torch_load env p device = Inr ck"
    and "case ck ''model_state_dict'' of
           Some sd \<Rightarrow> fst (model_load_state_dict env (model s) sd) = None | None \<Rightarrow> True"
    and "case ck ''optimizer_state_dict'' of
           Some sd \<Rightarrow> fst (optimizer_load_state_dict env (optimizer s) sd) = None | None \<Rightarrow> True"
  obtains s2 where "try_body env p device s =
     (case get_starting_epoch env ck s2 of
        (Inl e, s3) \<Rightarrow> (Inl e, s3)
      | (Inr start_epoch, s3) \<Rightarrow>
          (case log_checkpoint_loss ck s3 of
             (Some e, s4) \<Rightarrow> (Inl e, s4)
           | (None, s4) \<Rightarrow> (Inr start_epoch, s4)))"
proof -
  let ?s1 = "snd (load_model_state env ck s)"
  have m: "fst (load_model_state env ck s) = None"
    by (rule load_model_state_ok(1) [where s = s and ck = ck and env = env, OF assms(2)])
  have o1: "optimizer ?s1 = optimizer s"
    by (rule load_model_state_ok(2) [where s = s and ck = ck and env = env, OF assms(2)])
  have po: "case ck ''optimizer_state_dict'' of
              Some sd \<Rightarrow> fst (optimizer_load_state_dict env (optimizer ?s1) sd) = None | None \<Rightarrow> True"
    using assms(3) o1 by (simp split: option.splits)
  have o: "fst (load_optimizer_state env ck ?s1) = None"
    by (rule load_optimizer_state_ok [where s = ?s1 and ck = ck and env = env, OF po])
  show ?thesis
    using that try_body_loaded [OF assms(1) m o] by blast
qed

lemma py_format_6f_raises: "py_format_6f v = Some e \<Longrightarrow> \<exists>c msg. e = PyException c msg"
  by (cases v) (auto simp: py_format_6f_def split: if_splits)

lemma log_checkpoint_loss_raises:
  "fst (log_checkpoint_loss ck s) = Some e \<Longrightarrow> \<exists>c msg. e = PyException c msg"
  by (auto simp: log_checkpoint_loss_def split: option.splits dest: py_format_6f_raises)

lemma loader_on_try:
  assumes "p \<noteq> []" and "path_exists env p"
  shows "load_checkpoint_for_resumption env (Some p) device s =
     (case try_body env p device (logger INFO ''Resuming training from checkpoint: {}'' [PyStr p] s) of
        (Inr start_epoch, s') \<Rightarrow> (Inr start_epoch, s')
      | (Inl (PyException c msg), s') \<Rightarrow>
          (Inr (PyInt 0),
           logger WARNING ''Starting training from scratch'' []
             (logger ERROR ''Error loading checkpoint: {}'' [PyStr msg] s'))
      | (Inl (PyBaseException c msg), s') \<Rightarrow> (Inl (PyBaseException c msg), s'))"
  using assms by (simp add: load_checkpoint_for_resumption_def)

section \<open>Facts about paths\<close>

lemma digit_char_no_slash:
  assumes "n < 10"
  shows "digit_char n \<noteq> CHR ''/''"
proof -
  from assms have "n \<in> {0, 1, 2, 3, 4, 5, 6, 7, 8, 9}" by auto
  then show ?thesis by (auto simp: digit_char_def)
qed

lemma str_nat_no_slash: "CHR ''/'' \<notin> set (str_nat n)"
proof (induction n rule: str_nat.induct)
  case (1 n)
  show ?case
  proof (cases "n < 10")
    case True
    then show ?thesis
      using digit_char_no_slash [of n] by (subst str_nat.simps) auto
  next
    case False
    then show ?thesis
      using 1 digit_char_no_slash [of "n mod 10"] by (subst str_nat.simps) auto
  qed
qed

lemma str_int_no_slash: "CHR ''/'' \<notin> set (str_int i)"
  by (simp add: str_int_def str_nat_no_slash)

lemma basename_of_join:
  assumes "CHR ''/'' \<notin> set f" and "d \<noteq> []"
  shows "os_path_basename (os_path_join d f) = f"
proof -
  have t: "takeWhile (\<lambda>c. c \<noteq> CHR ''/'') (rev f @ CHR ''/'' # ys) = rev f" for ys
  proof -
    have "takeWhile (\<lambda>c. c \<noteq> CHR ''/'') (rev f @ CHR ''/'' # ys)
            = rev f @ takeWhile (\<lambda>c. c \<noteq> CHR ''/'') (CHR ''/'' # ys)"
      using assms(1) by (intro takeWhile_append2) auto
    then show ?thesis by simp
  qed
  have nh: "f = [] \<or> hd f \<noteq> CHR ''/''"
    using assms(1) by (cases f) auto
  show ?thesis
  proof (cases "last d = CHR ''/''")
    case True
    then obtain ds where "rev d = CHR ''/'' # ds"
      using assms(2) by (cases "rev d") (auto simp: last_rev [symmetric] simp del: last_rev)
    then show ?thesis
      using True nh t [of ds] assms(2) by (auto simp: os_path_basename_def os_path_join_def)
  next
    case False
    then show ?thesis
      using nh t [of "rev d"] assms(2) by (auto simp: os_path_basename_def os_path_join_def)
  qed
qed

lemma checkpoint_filename:
  "d \<noteq> [] \<Longrightarrow>
     os_path_basename (os_path_join d (''checkpoint_epoch_'' @ str_int a @ ''.pt''))
       = ''checkpoint_epoch_'' @ str_int a @ ''.pt''"
  by (rule basename_of_join) (simp_all add: str_int_no_slash)

section \<open>Properties of the resume wrapper\<close>

text \<open>
  C1. With start epoch \<open>S\<close> below the configured total \<open>T\<close>, \<open>train()\<close> runs the wrapped
  trainer's \<open>train\<close> on the trainer patched to \<open>num_epochs = T - S\<close>: the outcome and
  the world are those of that run. On the patched trainer, saving internal epoch \<open>i\<close>
  with a non-empty \<open>output_dir\<close> \<open>d\<close> calls the original \<open>save_checkpoint\<close> with the
  path \<open>os.path.join(d, "checkpoint_epoch_{i+S}.pt")\<close> and the epoch \<open>i + S\<close>, whatever
  path was asked for; the file name of that path is \<open>checkpoint_epoch_{i+S}.pt\<close>.
\<close>

theorem resumed_run_offsets_epochs:
  assumes "current_epoch self < num_epochs (trainer self)" and "d \<noteq> []"
  shows "let S = current_epoch self; T = num_epochs (trainer self);
             patched = (trainer self)\<lparr>num_epochs := T - S,
               save_checkpoint := adjusted_save_checkpoint S (save_checkpoint (trainer self))\<rparr>
         in fst (ResumeTrainer_train trainer_train self w) = fst (trainer_train patched w)
          \<and> fst (snd (snd (ResumeTrainer_train trainer_train self w))) = snd (snd (trainer_train patched w))
          \<and> num_epochs patched = T - S
          \<and> save_checkpoint patched (Some d) path (Some i) kwargs w0 =
              save_checkpoint (trainer self) (Some d)
                (os_path_join d (''checkpoint_epoch_'' @ str_int (i + S) @ ''.pt'')) (Some (i + S)) kwargs w0
          \<and> os_path_basename (os_path_join d (''checkpoint_epoch_'' @ str_int (i + S) @ ''.pt''))
              = ''checkpoint_epoch_'' @ str_int (i + S) @ ''.pt''"
  using assms checkpoint_filename [of d "i + current_epoch self"]
  by (auto simp: ResumeTrainer_train_def adjusted_save_checkpoint_def Let_def split: prod.splits sum.splits)

text \<open>
  The example of the specification: start epoch 3 of 5. The wrapped trainer runs 2 epochs;
  its epochs 0 and 1 are filed as \<open>checkpoint_epoch_3.pt\<close> and \<open>checkpoint_epoch_4.pt\<close>, with
  epoch fields 3 and 4.
\<close>

theorem resumed_run_offsets_epochs_witness:
  "fst (ResumeTrainer_train epoch_counting_train (ResumeTrainer_init (file_trainer 5) 3) [])
     = Inr (PyDict [(''epochs_run'', PyInt 2)])
   \<and> fst (snd (snd (ResumeTrainer_train epoch_counting_train (ResumeTrainer_init (file_trainer 5) 3) [])))
     = [(''out/checkpoint_epoch_3.pt'', Some 3), (''out/checkpoint_epoch_4.pt'', Some 4)]
   \<and> adjusted_save_checkpoint 3 write_checkpoint (Some ''out'') ''out/checkpoint_epoch_0.pt'' (Some 0) () []
     = (Inr PyNone, [(''out/checkpoint_epoch_3.pt'', Some 3)])"
proof -
  have h: "current_epoch (ResumeTrainer_init (file_trainer 5) 3)
             < num_epochs (trainer (ResumeTrainer_init (file_trainer 5) 3))"
    by (simp add: ResumeTrainer_init_def file_trainer_def)
  have d: "''out'' \<noteq> []" by simp
  show ?thesis
    using resumed_run_offsets_epochs [OF h d, of epoch_counting_train "[]" "''out/checkpoint_epoch_0.pt''" 0 "()" "[]"]
    by (simp add: trainer_example_defs)
qed

text \<open>
  C3. With start epoch at or above the configured total, \<open>train()\<close> returns
  \<open>{'final_loss': 0.0, 'training_time': 0.0}\<close> after one warning, whatever the wrapped
  trainer's \<open>train\<close> method is (it is not run), and leaves the wrapper, its trainer
  and the world as they were.
\<close>

theorem no_remaining_epochs_short_circuits:
  assumes "num_epochs (trainer self) \<le> current_epoch self"
  shows "ResumeTrainer_train trainer_train self w =
     (Inr (PyDict [(''final_loss'', PyFloat 0), (''training_time'', PyFloat 0)]), self, w,
      [(WARNING, ''No epochs remaining to train. Already completed {} epochs.'',
        [PyInt (current_epoch self)])])"
  using assms by (simp add: ResumeTrainer_train_def zero_result_def)

theorem no_remaining_epochs_short_circuits_witness:
  "ResumeTrainer_train failing_train (ResumeTrainer_init (file_trainer 5) 5) [] =
     (Inr (PyDict [(''final_loss'', PyFloat 0), (''training_time'', PyFloat 0)]),
      ResumeTrainer_init (file_trainer 5) 5, [],
      [(WARNING, ''No epochs remaining to train. Already completed {} epochs.'', [PyInt 5])])"
proof -
  have h: "num_epochs (trainer (ResumeTrainer_init (file_trainer 5) 5))
             \<le> current_epoch (ResumeTrainer_init (file_trainer 5) 5)"
    by (simp add: ResumeTrainer_init_def file_trainer_def)
  show ?thesis
    using no_remaining_epochs_short_circuits [OF h, of failing_train "[]"]
    by (simp add: ResumeTrainer_init_def)
qed

text \<open>
  C7. When \<open>train()\<close> returns a result, the wrapped trainer's \<open>num_epochs\<close> and
  \<open>save_checkpoint\<close> are what they were before the call. If epochs remained, the result
  is the one the wrapped trainer's \<open>train\<close> returned on the patched trainer; otherwise it
  is the zero result.
\<close>

theorem normal_return_restores_trainer:
  assumes "ResumeTrainer_train trainer_train self w = (Inr result, self', w', lg)"
  shows "num_epochs (trainer self') = num_epochs (trainer self)
       \<and> save_checkpoint (trainer self') = save_checkpoint (trainer self)
       \<and> (if current_epoch self < num_epochs (trainer self)
          then fst (trainer_train
                 ((trainer self)\<lparr>num_epochs := num_epochs (trainer self) - current_epoch self,
                    save_checkpoint :=
                      adjusted_save_checkpoint (current_epoch self) (save_checkpoint (trainer self))\<rparr>) w)
               = Inr result
          else result = zero_result)"
  using assms
  by (auto simp: ResumeTrainer_train_def Let_def split: prod.splits sum.splits if_splits)

theorem normal_return_restores_trainer_witness:
  "ResumeTrainer_train epoch_counting_train (ResumeTrainer_init (file_trainer 5) 3) [] =
     (Inr (PyDict [(''epochs_run'', PyInt 2)]), ResumeTrainer_init (file_trainer 5) 3,
      [(''out/checkpoint_epoch_3.pt'', Some 3), (''out/checkpoint_epoch_4.pt'', Some 4)], [])
   \<and> num_epochs (trainer (ResumeTrainer_init (file_trainer 5) 3)) = 5
   \<and> save_checkpoint (trainer (ResumeTrainer_init (file_trainer 5) 3)) = write_checkpoint"
proof -
  have r: "ResumeTrainer_train epoch_counting_train (ResumeTrainer_init (file_trainer 5) 3) [] =
     (Inr (PyDict [(''epochs_run'', PyInt 2)]), ResumeTrainer_init (file_trainer 5) 3,
      [(''out/checkpoint_epoch_3.pt'', Some 3), (''out/checkpoint_epoch_4.pt'', Some 4)], [])"
    by (simp add: trainer_example_defs)
  show ?thesis
    using normal_return_restores_trainer [OF r] r
    by (simp add: ResumeTrainer_init_def file_trainer_def)
qed

text \<open>
  C10. With epochs remaining, when the wrapped trainer's \<open>train\<close> raises, \<open>train()\<close> raises
  the same exception and restores nothing: the trainer stays as that run left it. If the
  run did not itself reassign the two patched attributes, \<open>num_epochs\<close> is still the
  remaining count and \<open>save_checkpoint\<close> is still the adjusting closure.
\<close>

theorem trainer_exception_leaves_patch:
  assumes "current_epoch self < num_epochs (trainer self)"
    and "trainer_train
           ((trainer self)\<lparr>num_epochs := num_epochs (trainer self) - current_epoch self,
              save_checkpoint :=
                adjusted_save_checkpoint (current_epoch self) (save_checkpoint (trainer self))\<rparr>) w
         = (Inl e, t', w')"
    and "num_epochs t' = num_epochs (trainer self) - current_epoch self"
    and "save_checkpoint t' = adjusted_save_checkpoint (current_epoch self) (save_checkpoint (trainer self))"
  shows "ResumeTrainer_train trainer_train self w = (Inl e, self\<lparr>trainer := t'\<rparr>, w', [])
       \<and> num_epochs (trainer (fst (snd (ResumeTrainer_train trainer_train self w))))
           = num_epochs (trainer self) - current_epoch self
       \<and> save_checkpoint (trainer (fst (snd (ResumeTrainer_train trainer_train self w))))
           = adjusted_save_checkpoint (current_epoch self) (save_checkpoint (trainer self))"
  using assms by (simp add: ResumeTrainer_train_def Let_def)

theorem trainer_exception_leaves_patch_witness:
  "fst (ResumeTrainer_train failing_train (ResumeTrainer_init (file_trainer 5) 3) [])
     = Inl (PyException ''RuntimeError'' ''CUDA out of memory'')
   \<and> num_epochs (trainer (fst (snd (ResumeTrainer_train failing_train (ResumeTrainer_init (file_trainer 5) 3) [])))) = 2
   \<and> save_checkpoint (trainer (fst (snd (ResumeTrainer_train failing_train (ResumeTrainer_init (file_trainer 5) 3) []))))
     = adjusted_save_checkpoint 3 write_checkpoint"
proof -
  let ?self = "ResumeTrainer_init (file_trainer 5) 3"
  let ?t = "(trainer ?self)\<lparr>num_epochs := num_epochs (trainer ?self) - current_epoch ?self,
              save_checkpoint := adjusted_save_checkpoint (current_epoch ?self) (save_checkpoint (trainer ?self))\<rparr>"
  have h: "current_epoch ?self < num_epochs (trainer ?self)"
    by (simp add: ResumeTrainer_init_def file_trainer_def)
  have f: "failing_train ?t [] = (Inl (PyException ''RuntimeError'' ''CUDA out of memory''), ?t, [])"
    by (simp add: failing_train_def)
  have n: "num_epochs ?t = num_epochs (trainer ?self) - current_epoch ?self" by simp
  have s: "save_checkpoint ?t = adjusted_save_checkpoint (current_epoch ?self) (save_checkpoint (trainer ?self))"
    by simp
  show ?thesis
    using trainer_exception_leaves_patch
      [where trainer_train = failing_train and self = ?self and w = "[]" and t' = ?t, OF h f n s]
    by (simp add: ResumeTrainer_init_def file_trainer_def)
qed

section \<open>Properties of the checkpoint loader\<close>

text \<open>
  C8. When the checkpoint path is \<open>None\<close>, is empty, or names no file on disk, the loader
  returns start epoch 0, raises nothing, and leaves the model and the optimizer as they
  were. It logs one warning when a non-empty path was given, and nothing otherwise.
\<close>

theorem missing_checkpoint_starts_fresh:
  assumes "checkpoint_path = None
         \<or> (\<exists>p. checkpoint_path = Some p \<and> (p = [] \<or> \<not> path_exists env p))"
  shows "fst (load_checkpoint_for_resumption env checkpoint_path device s) = Inr (PyInt 0)
       \<and> model (snd (load_checkpoint_for_resumption env checkpoint_path device s)) = model s
       \<and> optimizer (snd (load_checkpoint_for_resumption env checkpoint_path device s)) = optimizer s
       \<and> logged (snd (load_checkpoint_for_resumption env checkpoint_path device s)) =
           logged s @
           (case checkpoint_path of
              None \<Rightarrow> []
            | Some p \<Rightarrow>
                if p = [] then []
                else [(WARNING, ''Checkpoint file not found at '{}'. Starting training from scratch.'',
                       [PyStr p])])"
  using assms by (auto simp: load_checkpoint_for_resumption_def logger_def)

theorem missing_checkpoint_starts_fresh_witness:
  "load_checkpoint_for_resumption (disk_env epoch4_bundle) (Some ''out/other.pt'') ''cpu'' st0 =
     (Inr (PyInt 0),
      \<lparr>model = 0, optimizer = 0,
       logged = [(WARNING, ''Checkpoint file not found at '{}'. Starting training from scratch.'',
                  [PyStr ''out/other.pt''])]\<rparr>)"
proof -
  have h: "Some ''out/other.pt'' = None
         \<or> (\<exists>p. Some ''out/other.pt'' = Some p \<and> (p = [] \<or> \<not> path_exists (disk_env epoch4_bundle) p))"
    by (simp add: disk_env_def)
  show ?thesis
    using missing_checkpoint_starts_fresh [OF h, of "''cpu''" st0]
    by (simp add: loader_example_defs)
qed

text \<open>
  C9. When the file exists, the bundle loads, the model state and the optimizer state (where
  present) load without raising, and the bundle has no \<open>epoch\<close> entry, the loader returns
  start epoch 0.
\<close>

theorem no_epoch_entry_starts_at_zero:
  assumes "p \<noteq> []" and "path_exists env p"
    and "torch_load env p device = Inr ck"
    and "case ck ''model_state_dict'' of
           Some sd \<Rightarrow> fst (model_load_state_dict env (model s) sd) = None | None \<Rightarrow> True"
    and "case ck ''optimizer_state_dict'' of
           Some sd \<Rightarrow> fst (optimizer_load_state_dict env (optimizer s) sd) = None | None \<Rightarrow> True"
    and "ck ''epoch'' = None"
  shows "fst (load_checkpoint_for_resumption env (Some p) device s) = Inr (PyInt 0)"
proof -
  let ?s0 = "logger INFO ''Resuming training from checkpoint: {}'' [PyStr p] s"
  have pm: "case ck ''model_state_dict'' of
              Some sd \<Rightarrow> fst (model_load_state_dict env (model ?s0) sd) = None | None \<Rightarrow> True"
    using assms(4) by (simp add: logger_def split: option.splits)
  have po: "case ck ''optimizer_state_dict'' of
              Some sd \<Rightarrow> fst (optimizer_load_state_dict env (optimizer ?s0) sd) = None | None \<Rightarrow> True"
    using assms(5) by (simp add: logger_def split: option.splits)
  obtain s2 where t: "try_body env p device ?s0 =
     (case get_starting_epoch env ck s2 of
        (Inl e, s3) \<Rightarrow> (Inl e, s3)
      | (Inr start_epoch, s3) \<Rightarrow>
          (case log_checkpoint_loss ck s3 of
             (Some e, s4) \<Rightarrow> (Inl e, s4)
           | (None, s4) \<Rightarrow> (Inr start_epoch, s4)))"
    by (rule try_body_after_loads [where s = ?s0, OF assms(3) pm po])
  have e: "fst (get_starting_epoch env ck s2) = Inr (PyInt 0)"
    using assms(6) by (simp add: get_starting_epoch_def)
  have "fst (try_body env p device ?s0) = Inr (PyInt 0)
         \<or> (\<exists>c msg. fst (try_body env p device ?s0) = Inl (PyException c msg))"
    using e log_checkpoint_loss_raises [where ck = ck and s = "snd (get_starting_epoch env ck s2)"]
    by (auto simp: t split: prod.splits sum.splits option.splits)
  then show ?thesis
    by (auto simp: loader_on_try [OF assms(1,2)] split: prod.splits sum.splits exn.splits)
qed

theorem no_epoch_entry_starts_at_zero_witness:
  "load_checkpoint_for_resumption (disk_env weights_only_bundle) (Some ''out/ckpt.pt'') ''cpu'' st0 =
     (Inr (PyInt 0),
      \<lparr>model = 7, optimizer = 0,
       logged =
         [(INFO, ''Resuming training from checkpoint: {}'', [PyStr ''out/ckpt.pt'']),
          (INFO, ''Model state loaded successfully'', []),
          (WARNING, ''No optimizer_state_dict found in checkpoint'', []),
          (WARNING, ''No epoch information found in checkpoint, starting from epoch 0'', [])]\<rparr>)"
proof -
  have a: "''out/ckpt.pt'' \<noteq> []" by simp
  have b: "path_exists (disk_env weights_only_bundle) ''out/ckpt.pt''"
    by (simp add: disk_env_def)
  have c: "torch_load (disk_env weights_only_bundle) ''out/ckpt.pt'' ''cpu'' = Inr weights_only_bundle"
    by (simp add: disk_env_def)
  have d: "case weights_only_bundle ''model_state_dict'' of
             Some sd \<Rightarrow> fst (model_load_state_dict (disk_env weights_only_bundle) (model st0) sd) = None
           | None \<Rightarrow> True"
    by (simp add: disk_env_def weights_only_bundle_def)
  have e: "case weights_only_bundle ''optimizer_state_dict'' of
             Some sd \<Rightarrow> fst (optimizer_load_state_dict (disk_env weights_only_bundle) (optimizer st0) sd) = None
           | None \<Rightarrow> True"
    by (simp add: disk_env_def weights_only_bundle_def)
  have f: "weights_only_bundle ''epoch'' = None"
    by (simp add: weights_only_bundle_def)
  show ?thesis
    using no_epoch_entry_starts_at_zero [OF a b c d e f]
    by (simp add: loader_example_defs weights_only_bundle_def)
qed

text \<open>
  C2, as the code has it. When the file exists, the bundle loads, the model state and the
  optimizer state (where present) load without raising, the \<open>epoch\<close> entry is the integer
  \<open>E\<close>, and the \<open>loss\<close> entry, if there is one, can be formatted with \<open>.6f\<close>, the loader
  returns start epoch \<open>E + 1\<close>.
\<close>

theorem integer_epoch_resumes_at_successor:
  assumes "p \<noteq> []" and "path_exists env p"
    and "torch_load env p device = Inr ck"
    and "case ck ''model_state_dict'' of
           Some sd \<Rightarrow> fst (model_load_state_dict env (model s) sd) = None | None \<Rightarrow> True"
    and "case ck ''optimizer_state_dict'' of
           Some sd \<Rightarrow> fst (optimizer_load_state_dict env (optimizer s) sd) = None | None \<Rightarrow> True"
    and "ck ''epoch'' = Some (PyInt E)"
    and "case ck ''loss'' of Some v \<Rightarrow> py_format_6f v = None | None \<Rightarrow> True"
  shows "fst (load_checkpoint_for_resumption env (Some p) device s) = Inr (PyInt (E + 1))"
proof -
  let ?s0 = "logger INFO ''Resuming training from checkpoint: {}'' [PyStr p] s"
  have pm: "case ck ''model_state_dict'' of
              Some sd \<Rightarrow> fst (model_load_state_dict env (model ?s0) sd) = None | None \<Rightarrow> True"
    using assms(4) by (simp add: logger_def split: option.splits)
  have po: "case ck ''optimizer_state_dict'' of
              Some sd \<Rightarrow> fst (optimizer_load_state_dict env (optimizer ?s0) sd) = None | None \<Rightarrow> True"
    using assms(5) by (simp add: logger_def split: option.splits)
  obtain s2 where t: "try_body env p device ?s0 =
     (case get_starting_epoch env ck s2 of
        (Inl e, s3) \<Rightarrow> (Inl e, s3)
      | (Inr start_epoch, s3) \<Rightarrow>
          (case log_checkpoint_loss ck s3 of
             (Some e, s4) \<Rightarrow> (Inl e, s4)
           | (None, s4) \<Rightarrow> (Inr start_epoch, s4)))"
    by (rule try_body_after_loads [where s = ?s0, OF assms(3) pm po])
  have e: "fst (get_starting_epoch env ck s2) = Inr (PyInt (E + 1))"
    using assms(6) by (simp add: get_starting_epoch_def py_add_one_def)
  have l: "fst (log_checkpoint_loss ck (snd (get_starting_epoch env ck s2))) = None"
    using assms(7) by (cases "ck ''loss''") (simp_all add: log_checkpoint_loss_def)
  have "fst (try_body env p device ?s0) = Inr (PyInt (E + 1))"
    using e l by (auto simp: t split: prod.splits sum.splits option.splits)
  then show ?thesis
    by (auto simp: loader_on_try [OF assms(1,2)] split: prod.splits sum.splits exn.splits)
qed

theorem integer_epoch_resumes_at_successor_witness:
  "load_checkpoint_for_resumption (disk_env epoch4_bundle) (Some ''out/ckpt.pt'') ''cpu'' st0 =
     (Inr (PyInt 5),
      \<lparr>model = 7, optimizer = 8,
       logged =
         [(INFO, ''Resuming training from checkpoint: {}'', [PyStr ''out/ckpt.pt'']),
          (INFO, ''Model state loaded successfully'', []),
          (INFO, ''Optimizer state loaded successfully'', []),
          (INFO, ''Resuming from epoch {}'', [PyInt 5]),
          (INFO, ''Checkpoint loss: {:.6f}'', [PyFloat (1 / 2)])]\<rparr>)"
proof -
  have a: "''out/ckpt.pt'' \<noteq> []" by simp
  have b: "path_exists (disk_env epoch4_bundle) ''out/ckpt.pt''"
    by (simp add: disk_env_def)
  have c: "torch_load (disk_env epoch4_bundle) ''out/ckpt.pt'' ''cpu'' = Inr epoch4_bundle"
    by (simp add: disk_env_def)
  have d: "case epoch4_bundle ''model_state_dict'' of
             Some sd \<Rightarrow> fst (model_load_state_dict (disk_env epoch4_bundle) (model st0) sd) = None
           | None \<Rightarrow> True"
    by (simp add: disk_env_def epoch4_bundle_def)
  have e: "case epoch4_bundle ''optimizer_state_dict'' of
             Some sd \<Rightarrow> fst (optimizer_load_state_dict (disk_env epoch4_bundle) (optimizer st0) sd) = None
           | None \<Rightarrow> True"
    by (simp add: disk_env_def epoch4_bundle_def)
  have f: "epoch4_bundle ''epoch'' = Some (PyInt 4)"
    by (simp add: epoch4_bundle_def)
  have g: "case epoch4_bundle ''loss'' of Some v \<Rightarrow> py_format_6f v = None | None \<Rightarrow> True"
    by (simp add: epoch4_bundle_def py_format_6f_def)
  show ?thesis
    using integer_epoch_resumes_at_successor [OF a b c d e f g]
    by (simp add: loader_example_defs epoch4_bundle_def)
qed

text \<open>
  C2 as stated fails: a bundle that loads, whose model and optimizer states load, with
  epoch 4 and \<open>None\<close> for the loss. Formatting the loss for the log raises TypeError under
  the \<open>try\<close>, the handler resets the start epoch, and the loader returns 0, not 5, with
  the stored weights already in the model.
\<close>

theorem integer_epoch_resumes_at_successor_counterexample:
  "torch_load (disk_env lossless_bundle) ''out/ckpt.pt'' ''cpu'' = Inr lossless_bundle
   \<and> lossless_bundle ''epoch'' = Some (PyInt 4)
   \<and> load_checkpoint_for_resumption (disk_env lossless_bundle) (Some ''out/ckpt.pt'') ''cpu'' st0 =
     (Inr (PyInt 0),
      \<lparr>model = 7, optimizer = 8,
       logged =
         [(INFO, ''Resuming training from checkpoint: {}'', [PyStr ''out/ckpt.pt'']),
          (INFO, ''Model state loaded successfully'', []),
          (INFO, ''Optimizer state loaded successfully'', []),
          (INFO, ''Resuming from epoch {}'', [PyInt 5]),
          (ERROR, ''Error loading checkpoint: {}'',
           [PyStr ''unsupported format string passed to NoneType.__format__'']),
          (WARNING, ''Starting training from scratch'', [])]\<rparr>)"
  by (simp add: loader_example_defs lossless_bundle_def)

text \<open>
  C4, as the code has it. When the file exists, the bundle loads and has a model-state entry,
  and loading it into the model raises a RuntimeError (what a shape mismatch raises),
  the loader catches the error: it logs it, returns start epoch 0, and leaves the model
  as the failed load left it and the optimizer untouched.
\<close>

theorem shape_mismatch_is_caught:
  assumes "p \<noteq> []" and "path_exists env p"
    and "torch_load env p device = Inr ck"
    and "ck ''model_state_dict'' = Some sd"
    and "model_load_state_dict env (model s) sd = (Some (PyException ''RuntimeError'' msg), m')"
  shows "load_checkpoint_for_resumption env (Some p) device s =
     (Inr (PyInt 0),
      s\<lparr>model := m',
        logged := logged s @
          [(INFO, ''Resuming training from checkpoint: {}'', [PyStr p]),
           (ERROR, ''Error loading checkpoint: {}'', [PyStr msg]),
           (WARNING, ''Starting training from scratch'', [])]\<rparr>)"
  using assms
  by (simp add: load_checkpoint_for_resumption_def try_body_def load_model_state_def logger_def)

theorem shape_mismatch_is_caught_witness:
  "snd (load_checkpoint_for_resumption (mismatch_env epoch4_bundle) (Some ''out/ckpt.pt'') ''cpu'' st0) =
     \<lparr>model = 0, optimizer = 0,
      logged =
        [(INFO, ''Resuming training from checkpoint: {}'', [PyStr ''out/ckpt.pt'']),
         (ERROR, ''Error loading checkpoint: {}'', [PyStr ''size mismatch for lm_head.weight'']),
         (WARNING, ''Starting training from scratch'', [])]\<rparr>"
proof -
  have a: "''out/ckpt.pt'' \<noteq> []" by simp
  have b: "path_exists (mismatch_env epoch4_bundle) ''out/ckpt.pt''"
    by (simp add: mismatch_env_def disk_env_def)
  have c: "torch_load (mismatch_env epoch4_bundle) ''out/ckpt.pt'' ''cpu'' = Inr epoch4_bundle"
    by (simp add: mismatch_env_def disk_env_def)
  have d: "epoch4_bundle ''model_state_dict'' = Some (PyObj 7)"
    by (simp add: epoch4_bundle_def)
  have e: "model_load_state_dict (mismatch_env epoch4_bundle) (model st0) (PyObj 7) =
             (Some (PyException ''RuntimeError'' ''size mismatch for lm_head.weight''), 0)"
    by (simp add: mismatch_env_def st0_def)
  show ?thesis
    using shape_mismatch_is_caught [OF a b c d e]
    by (simp add: st0_def)
qed

text \<open>
  C4 as stated fails: the model's \<open>load_state_dict\<close> raises RuntimeError on a bundle with a
  model-state entry, and the loader returns start epoch 0 to its caller; nothing
  propagates.
\<close>

theorem shape_mismatch_is_caught_counterexample:
  "epoch4_bundle ''model_state_dict'' = Some (PyObj 7)
   \<and> fst (model_load_state_dict (mismatch_env epoch4_bundle) (model st0) (PyObj 7))
       = Some (PyException ''RuntimeError'' ''size mismatch for lm_head.weight'')
   \<and> fst (load_checkpoint_for_resumption (mismatch_env epoch4_bundle) (Some ''out/ckpt.pt'') ''cpu'' st0)
       = Inr (PyInt 0)"
  by (simp add: loader_example_defs epoch4_bundle_def)

text \<open>
  C5, as the code has it. For an existing checkpoint, an instance of \<open>Exception\<close> raised by
  \<open>torch.load\<close>, by the model's \<open>load_state_dict\<close> or by the optimizer's \<open>load_state_dict\<close>
  is caught inside the loader, which returns start epoch 0.
\<close>

theorem exceptions_during_load_are_caught:
  assumes "p \<noteq> []" and "path_exists env p"
    and "torch_load env p device = Inl (PyException c msg)
       \<or> (\<exists>ck sd. torch_load env p device = Inr ck \<and> ck ''model_state_dict'' = Some sd
             \<and> fst (model_load_state_dict env (model s) sd) = Some (PyException c msg))
       \<or> (\<exists>ck sd. torch_load env p device = Inr ck
             \<and> (case ck ''model_state_dict'' of
                    Some md \<Rightarrow> fst (model_load_state_dict env (model s) md) = None | None \<Rightarrow> True)
             \<and> ck ''optimizer_state_dict'' = Some sd
             \<and> fst (optimizer_load_state_dict env (optimizer s) sd) = Some (PyException c msg))"
  shows "fst (load_checkpoint_for_resumption env (Some p) device s) = Inr (PyInt 0)"
  using assms(3)
proof (elim disjE exE conjE)
  assume "torch_load env p device = Inl (PyException c msg)"
  then show ?thesis
    by (simp add: loader_on_try [OF assms(1,2)] try_body_def)
next
  fix ck sd
  assume "torch_load env p device = Inr ck" and "ck ''model_state_dict'' = Some sd"
    and "fst (model_load_state_dict env (model s) sd) = Some (PyException c msg)"
  then show ?thesis
    by (cases "model_load_state_dict env (model s) sd")
       (simp add: loader_on_try [OF assms(1,2)] try_body_def load_model_state_def logger_def)
next
  fix ck sd
  let ?s0 = "logger INFO ''Resuming training from checkpoint: {}'' [PyStr p] s"
  assume a: "torch_load env p device = Inr ck"
    and b: "case ck ''model_state_dict'' of
              Some md \<Rightarrow> fst (model_load_state_dict env (model s) md) = None | None \<Rightarrow> True"
    and c: "ck ''optimizer_state_dict'' = Some sd"
    and d: "fst (optimizer_load_state_dict env (optimizer s) sd) = Some (PyException c msg)"
  have pm: "case ck ''model_state_dict'' of
              Some sd \<Rightarrow> fst (model_load_state_dict env (model ?s0) sd) = None | None \<Rightarrow> True"
    using b by (simp add: logger_def split: option.splits)
  obtain s1 where m: "load_model_state env ck ?s0 = (None, s1)" and o1: "optimizer s1 = optimizer s"
    using load_model_state_ok [where s = ?s0 and ck = ck and env = env, OF pm]
    by (cases "load_model_state env ck ?s0") (auto simp: logger_def)
  obtain o' where "optimizer_load_state_dict env (optimizer s1) sd = (Some (PyException c msg), o')"
    using d o1 by (cases "optimizer_load_state_dict env (optimizer s1) sd") auto
  then show ?thesis
    using a c m
    by (simp add: loader_on_try [OF assms(1,2)] try_body_def load_optimizer_state_def)
qed

theorem exceptions_during_load_are_caught_witness:
  "torch_load corrupt_env ''out/ckpt.pt'' ''cpu'' = Inl (PyException ''UnpicklingError'' ''invalid load key'')
   \<and> fst (load_checkpoint_for_resumption corrupt_env (Some ''out/ckpt.pt'') ''cpu'' st0) = Inr (PyInt 0)"
proof -
  have a: "''out/ckpt.pt'' \<noteq> []" by simp
  have b: "path_exists corrupt_env ''out/ckpt.pt''"
    by (simp add: corrupt_env_def disk_env_def)
  have c: "torch_load corrupt_env ''out/ckpt.pt'' ''cpu'' = Inl (PyException ''UnpicklingError'' ''invalid load key'')"
    by (simp add: corrupt_env_def)
  show ?thesis
    using exceptions_during_load_are_caught [where env = corrupt_env and s = st0, OF a b disjI1, OF c] c
    by simp
qed

text \<open>
  C5 as stated fails: \<open>except Exception\<close> does not catch what is raised outside the
  \<open>Exception\<close> hierarchy. A KeyboardInterrupt during \<open>torch.load\<close> leaves the loader.
\<close>

theorem exceptions_during_load_are_caught_counterexample:
  "path_exists interrupted_env ''out/ckpt.pt''
   \<and> torch_load interrupted_env ''out/ckpt.pt'' ''cpu'' = Inl (PyBaseException ''KeyboardInterrupt'' [])
   \<and> fst (load_checkpoint_for_resumption interrupted_env (Some ''out/ckpt.pt'') ''cpu'' st0)
       = Inl (PyBaseException ''KeyboardInterrupt'' [])"
  by (simp add: loader_example_defs)

section \<open>The epoch of the final checkpoint\<close>

text \<open>
  C6 does not hold for the final checkpoint. The wrapper files the trainer's epoch \<open>i\<close>
  under the absolute index \<open>i + S\<close>, so the last epoch of a fresh run of 5 epochs is saved
  with epoch 4, and resuming from that checkpoint starts at epoch 5. The bundle \<open>main\<close>
  saves afterwards carries \<open>config.num_epochs\<close> as its epoch, here 5: resuming from it
  starts at epoch 6, and a run configured for 6 epochs then trains nothing, although
  epoch 5 was never run.
\<close>

theorem final_checkpoint_epoch_is_count:
  "save_dict ms os n cfg tok args ts res ''epoch'' = Some (PyInt n)
   \<and> adjusted_save_checkpoint 0 write_checkpoint (Some ''out'') ''out/last.pt'' (Some 4) () []
       = (Inr PyNone, [(''out/checkpoint_epoch_4.pt'', Some 4)])
   \<and> fst (load_checkpoint_for_resumption (disk_env epoch4_bundle) (Some ''out/ckpt.pt'') ''cpu'' st0)
       = Inr (PyInt 5)
   \<and> fst (load_checkpoint_for_resumption (disk_env (final_bundle 5)) (Some ''out/ckpt.pt'') ''cpu'' st0)
       = Inr (PyInt 6)
   \<and> ResumeTrainer_train trainer_train (ResumeTrainer_init (file_trainer 6) 6) [] =
       (Inr zero_result, ResumeTrainer_init (file_trainer 6) 6, [],
        [(WARNING, ''No epochs remaining to train. Already completed {} epochs.'', [PyInt 6])])"
proof -
  have a: "save_dict ms os n cfg tok args ts res ''epoch'' = Some (PyInt n)"
    by (simp add: save_dict_def)
  have b: "adjusted_save_checkpoint 0 write_checkpoint (Some ''out'') ''out/last.pt'' (Some 4) () []
       = (Inr PyNone, [(''out/checkpoint_epoch_4.pt'', Some 4)])"
    by (simp add: trainer_example_defs)
  have c: "fst (load_checkpoint_for_resumption (disk_env epoch4_bundle) (Some ''out/ckpt.pt'') ''cpu'' st0)
       = Inr (PyInt 5)"
    by (simp add: loader_example_defs epoch4_bundle_def)
  have d: "fst (load_checkpoint_for_resumption (disk_env (final_bundle 5)) (Some ''out/ckpt.pt'') ''cpu'' st0)
       = Inr (PyInt 6)"
    by (simp add: loader_example_defs final_bundle_def save_dict_def)
  have e: "ResumeTrainer_train trainer_train (ResumeTrainer_init (file_trainer 6) 6) [] =
       (Inr zero_result, ResumeTrainer_init (file_trainer 6) 6, [],
        [(WARNING, ''No epochs remaining to train. Already completed {} epochs.'', [PyInt 6])])"
    by (simp add: ResumeTrainer_train_def ResumeTrainer_init_def file_trainer_def)
  show ?thesis
    using a b c d e by blast
qed

end
